theory Spec2Isabelle
  imports Main "HOL-Library.Word"
begin

section \<open>SimpleFlareWallet: the owner-gated vault contract\<close>

text \<open>
  The contract keeps one storage field, \<open>owner\<close>. Its balance is not a field: it is the
  entry of the contract's own address in the chain's ledger, read as
  \<open>address(this).balance\<close>. The model carries that ledger entry, the contract's own
  address and the list of emitted events next to \<open>owner\<close>.

  Addresses are 160-bit words; \<open>address(0)\<close> is the word \<open>0\<close>. Amounts typed
  \<open>uint256\<close> in the source (\<open>msg.value\<close>, \<open>_amount\<close>) are natural numbers: the
  contract performs no arithmetic on them, it only compares them and hands them to the
  ledger. The ledger entry is an integer, so that "the balance is never negative" is a
  property to be proved of the operations and not one of the type.
\<close>

type_synonym address = "160 word"

datatype event =
    Deposited address nat
  | Withdrawn address nat
  | OwnerChanged address address

record wallet =
  owner :: address
  self_addr :: address
  balance :: int
  emitted :: "event list"

text \<open>
  The revert reasons, one per \<open>require\<close> string of the source:
  \<open>"Not owner"\<close>, \<open>"Zero address"\<close>, \<open>"No FLR sent"\<close>, \<open>"Insufficient balance"\<close>,
  \<open>"Transfer failed"\<close>, \<open>"No balance"\<close>. The specification calls them Unauthorized,
  InvalidRecipient, ZeroValue, InsufficientBalance, TransferFailed and NoBalance.
\<close>

datatype revert =
    Not_owner
  | Zero_address
  | No_FLR_sent
  | Insufficient_balance
  | Transfer_failed
  | No_balance

text \<open>
  A message sent to the contract. \<open>withdraw\<close> and \<open>withdrawAll\<close> hand control to the
  recipient (\<open>_to.call{value: ...}("")\<close> forwards all gas), whose code is not part of the
  repository. What that code can do to the wallet is fixed by the wallet's interface: it
  either reverts, or returns after sending further messages to the wallet. So a
  withdrawal message carries the recipient's \<open>reaction\<close>: \<open>Reverts\<close>, or \<open>Returns\<close> with
  the messages (sender and call) that reach the wallet while the recipient runs. An
  account without code is \<open>Returns []\<close>.

  The ledger can also credit the wallet's entry without running its code (a contract that
  self-destructs in favour of the wallet, a block reward): \<open>Forced_credit\<close>. It is listed
  with the messages, so that a reaction and a sequence of transactions can contain it.

  \<open>changeOwner\<close>, \<open>withdraw\<close> and \<open>withdrawAll\<close> are not \<open>payable\<close>, so their
  messages carry no value; \<open>deposit\<close> and the bare transfer (\<open>receive\<close>) carry
  \<open>msg.value\<close>. Gas and the call-depth limit are not modelled.
\<close>

datatype call =
    Call_changeOwner address
  | Call_deposit nat
  | Call_withdraw address nat reaction
  | Call_withdrawAll address reaction
  | Call_receive nat
  | Forced_credit nat
and reaction =
    Reverts
  | Returns "(address \<times> call) list"

definition constructor_wallet :: "address \<Rightarrow> address \<Rightarrow> nat \<Rightarrow> wallet" where
  \<comment> \<open>\<open>owner = msg.sender\<close>; the address may hold value before the deployment\<close>
  "constructor_wallet sender vault funded =
     \<lparr>owner = sender, self_addr = vault, balance = int funded, emitted = []\<rparr>"

definition emit :: "event \<Rightarrow> wallet \<Rightarrow> wallet" where
  "emit e s = s\<lparr>emitted := emitted s @ [e]\<rparr>"

definition credit :: "nat \<Rightarrow> wallet \<Rightarrow> wallet" where
  \<comment> \<open>the ledger adds \<open>msg.value\<close> to the callee before its code runs\<close>
  "credit v s = s\<lparr>balance := balance s + int v\<rparr>"

definition debit :: "nat \<Rightarrow> wallet \<Rightarrow> wallet" where
  \<comment> \<open>the ledger takes the value of an outgoing call from the caller\<close>
  "debit v s = s\<lparr>balance := balance s - int v\<rparr>"

definition onlyOwner :: "wallet \<Rightarrow> address \<Rightarrow> revert + wallet \<Rightarrow> revert + wallet" where
  \<comment> \<open>the modifier: \<open>require(msg.sender == owner, "Not owner"); _;\<close>\<close>
  "onlyOwner s sender body = (if \<not> sender = owner s then Inl Not_owner else body)"

definition changeOwner :: "wallet \<Rightarrow> address \<Rightarrow> address \<Rightarrow> revert + wallet" where
  "changeOwner s sender newOwner =
     onlyOwner s sender
       (if \<not> newOwner \<noteq> 0 then Inl Zero_address
        else Inr ((emit (OwnerChanged (owner s) newOwner) s)\<lparr>owner := newOwner\<rparr>))"

definition deposit :: "wallet \<Rightarrow> address \<Rightarrow> nat \<Rightarrow> revert + wallet" where
  "deposit s sender val =
     (if \<not> val > 0 then Inl No_FLR_sent
      else Inr (emit (Deposited sender val) (credit val s)))"

definition receive_flr :: "wallet \<Rightarrow> address \<Rightarrow> nat \<Rightarrow> revert + wallet" where
  \<comment> \<open>\<open>receive() external payable\<close>: runs on a call with empty calldata\<close>
  "receive_flr s sender val = Inr (emit (Deposited sender val) (credit val s))"

text \<open>
  \<open>send_value s to v r\<close> is \<open>_to.call{value: v}("")\<close>: \<open>None\<close> when the call returns
  \<open>success = false\<close>, which leaves the wallet as it was. The ledger refuses a value above
  the caller's balance. A call to the wallet's own address runs its \<open>receive()\<close> with the
  wallet as sender: the ledger takes the value from the wallet's entry and adds it to
  the same entry. Any other recipient reacts as \<open>r\<close> says; a message that fails while
  the recipient runs changes nothing and the recipient goes on (\<open>run_calls\<close>); a
  recipient that lets the failure pass on is \<open>Reverts\<close>.
  \<open>run_calls\<close> is also how a sequence of transactions acts on the wallet.
\<close>

function withdraw :: "wallet \<Rightarrow> address \<Rightarrow> address \<Rightarrow> nat \<Rightarrow> reaction \<Rightarrow> revert + wallet"
and withdrawAll :: "wallet \<Rightarrow> address \<Rightarrow> address \<Rightarrow> reaction \<Rightarrow> revert + wallet"
and send_value :: "wallet \<Rightarrow> address \<Rightarrow> nat \<Rightarrow> reaction \<Rightarrow> wallet option"
and run_call :: "wallet \<Rightarrow> address \<Rightarrow> call \<Rightarrow> revert + wallet"
and run_calls :: "wallet \<Rightarrow> (address \<times> call) list \<Rightarrow> wallet"
where
  "withdraw s sender to amount r =
     onlyOwner s sender
       (if \<not> to \<noteq> 0 then Inl Zero_address
        else if \<not> balance s \<ge> int amount then Inl Insufficient_balance
        else (case send_value s to amount r of
                None \<Rightarrow> Inl Transfer_failed
              | Some s' \<Rightarrow> Inr (emit (Withdrawn to amount) s')))"
| "withdrawAll s sender to r =
     onlyOwner s sender
       (let bal = nat (balance s) in
        if \<not> bal > 0 then Inl No_balance
        else if \<not> to \<noteq> 0 then Inl Zero_address
        else (case send_value s to bal r of
                None \<Rightarrow> Inl Transfer_failed
              | Some s' \<Rightarrow> Inr (emit (Withdrawn to bal) s')))"
| "send_value s to v r =
     (if balance s < int v then None
      else if to = self_addr s
        then (case receive_flr (debit v s) (self_addr s) v of
                Inl e \<Rightarrow> None
              | Inr s' \<Rightarrow> Some s')
      else (case r of
              Reverts \<Rightarrow> None
            | Returns cs \<Rightarrow> Some (run_calls (debit v s) cs)))"
| "run_call s sender (Call_changeOwner newOwner) = changeOwner s sender newOwner"
| "run_call s sender (Call_deposit val) = deposit s sender val"
| "run_call s sender (Call_withdraw to amount r) = withdraw s sender to amount r"
| "run_call s sender (Call_withdrawAll to r) = withdrawAll s sender to r"
| "run_call s sender (Call_receive val) =
     (if sender = self_addr s
      then (if balance s < int val then Inl Transfer_failed
            else receive_flr (debit val s) sender val)
      else receive_flr s sender val)"
| "run_call s sender (Forced_credit val) =
     Inr (if sender = self_addr s then s else credit val s)"
| "run_calls s [] = s"
| "run_calls s ((sender, c) # cs) =
     run_calls (case run_call s sender c of Inl e \<Rightarrow> s | Inr s' \<Rightarrow> s') cs"
  by pat_completeness auto
termination
  by (relation "measure (\<lambda>x. case x of
        Inl (Inl (s, sender, to, amount, r)) \<Rightarrow> 2 * size r + 1
      | Inl (Inr (s, sender, to, r)) \<Rightarrow> 2 * size r + 1
      | Inr (Inl (s, to, v, r)) \<Rightarrow> 2 * size r
      | Inr (Inr (Inl (s, sender, c))) \<Rightarrow> 2 * size c
      | Inr (Inr (Inr (s, cs))) \<Rightarrow> 2 * size_list (size_prod (\<lambda>a. 0) size) cs)") auto

declare withdraw.simps [simp del] withdrawAll.simps [simp del] send_value.simps [simp del]

text \<open>
  The sender's entry in the ledger is not part of the state, unless the sender is the
  wallet itself. The wallet's code sends one kind of message, the bare transfer of
  \<open>send_value\<close>; \<open>run_call\<close> gives a bare transfer from the wallet's own address the
  same meaning: the value is taken from the wallet's entry before it is added to it, and a
  value above the balance is not transferred (the wallet's \<open>require(success, ...)\<close>
  reports that as \<open>"Transfer failed"\<close>). A forced credit in favour of the wallet out
  of the wallet's own entry moves nothing.
\<close>

text \<open>
  One transaction, as the chain sees it: a revert discards every change of the call and
  reports the reason; otherwise the new state stands.
\<close>

definition transact :: "wallet \<Rightarrow> address \<Rightarrow> call \<Rightarrow> wallet \<times> revert option" where
  "transact s sender c =
     (case run_call s sender c of Inl e \<Rightarrow> (s, Some e) | Inr s' \<Rightarrow> (s', None))"

text \<open>The operations behind the \<open>onlyOwner\<close> modifier.\<close>

fun restricted :: "call \<Rightarrow> bool" where
  "restricted (Call_changeOwner newOwner) = True"
| "restricted (Call_withdraw to amount r) = True"
| "restricted (Call_withdrawAll to r) = True"
| "restricted (Call_deposit val) = False"
| "restricted (Call_receive val) = False"
| "restricted (Forced_credit val) = False"

definition wallet_inv :: "wallet \<Rightarrow> bool" where
  "wallet_inv s = (owner s \<noteq> 0 \<and> 0 \<le> balance s)"

section \<open>Auxiliary facts\<close>

lemma emit_inv: "wallet_inv (emit e s) = wallet_inv s"
  by (simp add: wallet_inv_def emit_def)

lemma run_calls_step:
  "run_calls s ((sender, c) # cs) = run_calls (fst (transact s sender c)) cs"
  by (cases "run_call s sender c") (simp_all add: transact_def)

text \<open>
  The invariant goes through the external call: whatever the recipient does while it
  holds control, it does through the wallet's own operations.
\<close>

lemma inv_preserved:
  "wallet_inv s \<Longrightarrow> withdraw s sender to amount r = Inr s' \<Longrightarrow> wallet_inv s'"
  "wallet_inv s \<Longrightarrow> withdrawAll s sender to r = Inr s' \<Longrightarrow> wallet_inv s'"
  "wallet_inv s \<Longrightarrow> send_value s to v r = Some s' \<Longrightarrow> wallet_inv s'"
  "wallet_inv s \<Longrightarrow> run_call s sender c = Inr s' \<Longrightarrow> wallet_inv s'"
  "wallet_inv s \<Longrightarrow> wallet_inv (run_calls s cs)"
proof (induction s sender to amount r and s sender to r and s to v r and s sender c and s cs
       arbitrary: s' and s' and s' and s'
       rule: withdraw_withdrawAll_send_value_run_call_run_calls.induct)
  case (1 s sender to amount r)
  then show ?case
    by (auto simp: onlyOwner_def withdraw.simps emit_inv split: if_splits option.splits)
next
  case (2 s sender to r)
  then show ?case
    by (auto simp: onlyOwner_def withdrawAll.simps emit_inv Let_def split: if_splits option.splits)
next
  case (3 s to v r)
  show ?case
  proof (cases "to = self_addr s")
    case True
    with 3(2,3) show ?thesis
      by (auto simp: send_value.simps receive_flr_def emit_def credit_def debit_def
            wallet_inv_def split: if_splits)
  next
    case False
    with 3(2,3) obtain cs where r: "r = Returns cs" and v: "int v \<le> balance s"
      and s': "s' = run_calls (debit v s) cs"
      by (auto simp: send_value.simps split: if_splits reaction.splits)
    from 3(2) v have "wallet_inv (debit v s)"
      by (simp add: wallet_inv_def debit_def)
    with 3(1) [of cs] v False r s' show ?thesis by simp
  qed
next
  case (4 s sender newOwner)
  then show ?case
    by (auto simp: changeOwner_def onlyOwner_def emit_def wallet_inv_def split: if_splits)
next
  case (5 s sender val)
  then show ?case
    by (auto simp: deposit_def emit_def credit_def wallet_inv_def split: if_splits)
next
  case (6 s sender to amount r)
  then show ?case by simp
next
  case (7 s sender to r)
  then show ?case by simp
next
  case (8 s sender val)
  then show ?case
    by (auto simp: receive_flr_def emit_def credit_def debit_def wallet_inv_def
          split: if_splits)
next
  case (9 s sender val)
  then show ?case
    by (auto simp: credit_def wallet_inv_def split: if_splits)
next
  case (10 s)
  then show ?case by simp
next
  case (11 s sender c cs)
  then show ?case
    by (cases "run_call s sender c") auto
qed

lemma transact_inv: "wallet_inv s \<Longrightarrow> wallet_inv (fst (transact s sender c))"
  by (cases "run_call s sender c") (auto simp: transact_def dest: inv_preserved(4))

text \<open>Events are only ever appended, also while a recipient holds control.\<close>

lemma emitted_grows:
  "withdraw s sender to amount r = Inr s' \<Longrightarrow> \<exists>es. emitted s' = emitted s @ es"
  "withdrawAll s sender to r = Inr s' \<Longrightarrow> \<exists>es. emitted s' = emitted s @ es"
  "send_value s to v r = Some s' \<Longrightarrow> \<exists>es. emitted s' = emitted s @ es"
  "run_call s sender c = Inr s' \<Longrightarrow> \<exists>es. emitted s' = emitted s @ es"
  "\<exists>es. emitted (run_calls s cs) = emitted s @ es"
proof (induction s sender to amount r and s sender to r and s to v r and s sender c and s cs
       arbitrary: s' and s' and s' and s'
       rule: withdraw_withdrawAll_send_value_run_call_run_calls.induct)
  case (1 s sender to amount r)
  then show ?case
    by (fastforce simp: onlyOwner_def withdraw.simps emit_def split: if_splits option.splits)
next
  case (2 s sender to r)
  then show ?case
    by (fastforce simp: onlyOwner_def withdrawAll.simps emit_def Let_def
          split: if_splits option.splits)
next
  case (3 s to v r)
  show ?case
  proof (cases "to = self_addr s")
    case True
    with 3(2) show ?thesis
      by (auto simp: send_value.simps receive_flr_def emit_def credit_def debit_def
            split: if_splits)
  next
    case False
    with 3(2) obtain cs where r: "r = Returns cs" and v: "\<not> balance s < int v"
      and s': "s' = run_calls (debit v s) cs"
      by (auto simp: send_value.simps split: if_splits reaction.splits)
    from 3(1) [OF v False r] s' show ?thesis
      by (simp add: debit_def)
  qed
next
  case (4 s sender newOwner)
  then show ?case
    by (auto simp: changeOwner_def onlyOwner_def emit_def split: if_splits)
next
  case (5 s sender val)
  then show ?case
    by (auto simp: deposit_def emit_def credit_def split: if_splits)
next
  case (6 s sender to amount r)
  then show ?case by simp
next
  case (7 s sender to r)
  then show ?case by simp
next
  case (8 s sender val)
  then show ?case
    by (auto simp: receive_flr_def emit_def credit_def debit_def split: if_splits)
next
  case (9 s sender val)
  then show ?case
    by (auto simp: credit_def split: if_splits)
next
  case (10 s)
  then show ?case by simp
next
  case (11 s sender c cs)
  show ?case
  proof (cases "run_call s sender c")
    case (Inl e)
    with 11(2) show ?thesis by simp
  next
    case (Inr s1)
    from 11(1) [OF Inr] obtain es1 where "emitted s1 = emitted s @ es1" by blast
    moreover from 11(2) Inr obtain es2 where
      "emitted (run_calls s1 cs) = emitted s1 @ es2" by auto
    ultimately show ?thesis using Inr by simp
  qed
qed

lemma withdraw_Not_owner:
  "sender \<noteq> owner s \<Longrightarrow> transact s sender (Call_withdraw to a r) = (s, Some Not_owner)"
  by (simp add: transact_def onlyOwner_def withdraw.simps)

lemma withdraw_Insufficient_balance:
  "sender = owner s \<Longrightarrow> to \<noteq> 0 \<Longrightarrow> balance s < int a \<Longrightarrow>
   transact s sender (Call_withdraw to a r) = (s, Some Insufficient_balance)"
  by (simp add: transact_def onlyOwner_def withdraw.simps)

section \<open>Withdrawal\<close>

text \<open>
  C1 (as amended). For every vault state, every caller equal to the current owner, every
  non-null recipient \<open>to\<close>, and every amount \<open>a\<close> not above the current balance: if the
  recipient accepts the transfer, then \<open>withdraw(to, a)\<close> succeeds and emits
  \<open>Withdrawn(to, a)\<close> as its last event, after the events there were and those of the
  recipient's own calls. A recipient other than the vault is paid out of a vault debited
  by exactly \<open>a\<close>, and the state after the call is that debit followed by whatever the
  recipient did to the vault while it held control; if it did nothing (no call back, no
  value sent to the vault) the balance has decreased by exactly \<open>a\<close> and
  \<open>Withdrawn(to, a)\<close> is the only new event. A withdrawal to the vault's own address
  leaves the balance as it was and emits \<open>Deposited(to, a)\<close> before \<open>Withdrawn(to, a)\<close>.
\<close>

theorem withdraw_pays_out:
  "sender = owner s \<Longrightarrow> to \<noteq> 0 \<Longrightarrow> int a \<le> balance s \<Longrightarrow> send_value s to a r = Some s1 \<Longrightarrow>
   transact s sender (Call_withdraw to a r) = (emit (Withdrawn to a) s1, None) \<and>
   (\<exists>es. emitted (fst (transact s sender (Call_withdraw to a r))) =
           emitted s @ es @ [Withdrawn to a]) \<and>
   (to \<noteq> self_addr s \<longrightarrow> (\<exists>cs. r = Returns cs \<and> s1 = run_calls (debit a s) cs)) \<and>
   (to \<noteq> self_addr s \<and> r = Returns [] \<longrightarrow>
      transact s sender (Call_withdraw to a r) =
        (s\<lparr>balance := balance s - int a, emitted := emitted s @ [Withdrawn to a]\<rparr>, None)) \<and>
   (to = self_addr s \<longrightarrow>
      transact s sender (Call_withdraw to a r) =
        (s\<lparr>emitted := emitted s @ [Deposited to a, Withdrawn to a]\<rparr>, None))"
proof -
  assume own: "sender = owner s" and to: "to \<noteq> 0" and a: "int a \<le> balance s"
    and sv: "send_value s to a r = Some s1"
  have run: "transact s sender (Call_withdraw to a r) = (emit (Withdrawn to a) s1, None)"
    using own to a sv by (simp add: transact_def onlyOwner_def withdraw.simps)
  from emitted_grows(3) [OF sv] obtain es where "emitted s1 = emitted s @ es" by blast
  then have ev: "\<exists>es. emitted (fst (transact s sender (Call_withdraw to a r))) =
           emitted s @ es @ [Withdrawn to a]"
    by (simp add: run emit_def)
  have other: "\<exists>cs. r = Returns cs \<and> s1 = run_calls (debit a s) cs" if "to \<noteq> self_addr s"
    using sv a that by (cases r) (auto simp: send_value.simps)
  have quiet: "transact s sender (Call_withdraw to a r) =
        (s\<lparr>balance := balance s - int a, emitted := emitted s @ [Withdrawn to a]\<rparr>, None)"
    if "to \<noteq> self_addr s" "r = Returns []"
  proof -
    from sv a that have "s1 = debit a s"
      by (simp add: send_value.simps)
    then show ?thesis
      unfolding run by (simp add: emit_def debit_def)
  qed
  have self: "transact s sender (Call_withdraw to a r) =
        (s\<lparr>emitted := emitted s @ [Deposited to a, Withdrawn to a]\<rparr>, None)"
    if "to = self_addr s"
  proof -
    from sv a that have "s1 = emit (Deposited to a) s"
      by (auto simp: send_value.simps receive_flr_def emit_def debit_def credit_def)
    then show ?thesis
      unfolding run by (simp add: emit_def)
  qed
  from run ev other quiet self show ?thesis by blast
qed

theorem withdraw_pays_out_witness:
  "(1::address) = owner \<lparr>owner = 1, self_addr = 2, balance = 10, emitted = []\<rparr> \<and>
   (3::address) \<noteq> 0 \<and>
   int 4 \<le> balance \<lparr>owner = 1, self_addr = 2, balance = 10, emitted = []\<rparr> \<and>
   send_value \<lparr>owner = 1, self_addr = 2, balance = 10, emitted = []\<rparr> 3 4 (Returns []) =
     Some \<lparr>owner = 1, self_addr = 2, balance = 6, emitted = []\<rparr> \<and>
   (3::address) \<noteq> self_addr \<lparr>owner = 1, self_addr = 2, balance = 10, emitted = []\<rparr> \<and>
   transact \<lparr>owner = 1, self_addr = 2, balance = 10, emitted = []\<rparr> 1 (Call_withdraw 3 4 (Returns [])) =
     (\<lparr>owner = 1, self_addr = 2, balance = 6, emitted = [Withdrawn 3 4]\<rparr>, None)"
proof -
  have h1: "(1::address) = owner \<lparr>owner = 1, self_addr = 2, balance = 10, emitted = []\<rparr>" by simp
  have h2: "(3::address) \<noteq> 0" by simp
  have h3: "int 4 \<le> balance \<lparr>owner = 1, self_addr = 2, balance = 10, emitted = []\<rparr>" by simp
  have h4: "send_value \<lparr>owner = 1, self_addr = 2, balance = 10, emitted = []\<rparr> 3 4 (Returns []) =
     Some \<lparr>owner = 1, self_addr = 2, balance = 6, emitted = []\<rparr>"
    by (simp add: send_value.simps debit_def)
  have h5: "(3::address) \<noteq> self_addr \<lparr>owner = 1, self_addr = 2, balance = 10, emitted = []\<rparr>" by simp
  from withdraw_pays_out [OF h1 h2 h3 h4] h5
  have "transact \<lparr>owner = 1, self_addr = 2, balance = 10, emitted = []\<rparr> 1 (Call_withdraw 3 4 (Returns [])) =
     (\<lparr>owner = 1, self_addr = 2, balance = 10, emitted = []\<rparr>\<lparr>balance := balance \<lparr>owner = 1, self_addr = 2, balance = 10, emitted = []\<rparr> - int 4, emitted := emitted \<lparr>owner = 1, self_addr = 2, balance = 10, emitted = []\<rparr> @ [Withdrawn 3 4]\<rparr>, None)"
    by blast
  then have "transact \<lparr>owner = 1, self_addr = 2, balance = 10, emitted = []\<rparr> 1 (Call_withdraw 3 4 (Returns [])) =
     (\<lparr>owner = 1, self_addr = 2, balance = 6, emitted = [Withdrawn 3 4]\<rparr>, None)"
    by simp
  with h1 h2 h3 h4 h5 show ?thesis by blast
qed

text \<open>
  C1 as stated fails for two accepting recipients. The owner \<open>1\<close> of a vault at address
  \<open>2\<close> holding \<open>10\<close> withdraws \<open>4\<close> to the vault's own address: the call runs the vault's
  \<open>receive()\<close>, the value never leaves, and the balance is still \<open>10\<close>, with a
  \<open>Deposited(2, 4)\<close> before the \<open>Withdrawn(2, 4)\<close>. And a recipient \<open>3\<close> that deposits
  \<open>1\<close> while it holds control leaves the balance at \<open>7\<close>, not \<open>6\<close>.
\<close>

theorem withdraw_balance_counterexample:
  "(1::address) = owner \<lparr>owner = 1, self_addr = 2, balance = 10, emitted = []\<rparr> \<and>
   (2::address) \<noteq> 0 \<and>
   int 4 \<le> balance \<lparr>owner = 1, self_addr = 2, balance = 10, emitted = []\<rparr> \<and>
   send_value \<lparr>owner = 1, self_addr = 2, balance = 10, emitted = []\<rparr> 2 4 (Returns []) \<noteq> None \<and>
   transact \<lparr>owner = 1, self_addr = 2, balance = 10, emitted = []\<rparr> 1
       (Call_withdraw 2 4 (Returns [])) =
     (\<lparr>owner = 1, self_addr = 2, balance = 10,
       emitted = [Deposited 2 4, Withdrawn 2 4]\<rparr>, None) \<and>
   (10::int) \<noteq> 10 - int 4 \<and>
   (3::address) \<noteq> 0 \<and>
   send_value \<lparr>owner = 1, self_addr = 2, balance = 10, emitted = []\<rparr> 3 4
       (Returns [(3, Call_deposit 1)]) \<noteq> None \<and>
   transact \<lparr>owner = 1, self_addr = 2, balance = 10, emitted = []\<rparr> 1
       (Call_withdraw 3 4 (Returns [(3, Call_deposit 1)])) =
     (\<lparr>owner = 1, self_addr = 2, balance = 7,
       emitted = [Deposited 3 1, Withdrawn 3 4]\<rparr>, None) \<and>
   (7::int) \<noteq> 10 - int 4"
  by (simp add: transact_def onlyOwner_def withdraw.simps send_value.simps debit_def emit_def credit_def
        receive_flr_def deposit_def)

text \<open>
  C2. When the recipient rejects the transfer (\<open>send_value\<close> gives \<open>None\<close>),
  \<open>withdraw(to, a)\<close> and \<open>withdrawAll(to)\<close> are rejected and the state after the call
  is the state before it: no debit, no \<open>Withdrawn\<close>. Where the transfer was reached,
  that is where the checks before it passed, the reason is \<open>Transfer_failed\<close>.
\<close>

theorem rejected_transfer_reverts:
  "(send_value s to a r = None \<longrightarrow>
      (\<exists>e. transact s sender (Call_withdraw to a r) = (s, Some e) \<and>
           (sender = owner s \<and> to \<noteq> 0 \<and> int a \<le> balance s \<longrightarrow> e = Transfer_failed))) \<and>
   (send_value s to (nat (balance s)) r = None \<longrightarrow>
      (\<exists>e. transact s sender (Call_withdrawAll to r) = (s, Some e) \<and>
           (sender = owner s \<and> to \<noteq> 0 \<and> 0 < balance s \<longrightarrow> e = Transfer_failed)))"
  by (simp add: transact_def onlyOwner_def withdraw.simps withdrawAll.simps Let_def)

theorem rejected_transfer_reverts_witness:
  "send_value \<lparr>owner = 1, self_addr = 2, balance = 10, emitted = []\<rparr> 3 4 Reverts = None \<and>
   send_value \<lparr>owner = 1, self_addr = 2, balance = 10, emitted = []\<rparr> 3
      (nat (balance \<lparr>owner = 1, self_addr = 2, balance = 10, emitted = []\<rparr>)) Reverts = None \<and>
   transact \<lparr>owner = 1, self_addr = 2, balance = 10, emitted = []\<rparr> 1
       (Call_withdraw 3 4 Reverts) =
     (\<lparr>owner = 1, self_addr = 2, balance = 10, emitted = []\<rparr>, Some Transfer_failed) \<and>
   transact \<lparr>owner = 1, self_addr = 2, balance = 10, emitted = []\<rparr> 1
       (Call_withdrawAll 3 Reverts) =
     (\<lparr>owner = 1, self_addr = 2, balance = 10, emitted = []\<rparr>, Some Transfer_failed)"
  using rejected_transfer_reverts
    [of "\<lparr>owner = 1, self_addr = 2, balance = 10, emitted = []\<rparr>" 3 4 Reverts 1]
  by (auto simp: send_value.simps)

section \<open>Authorisation\<close>

text \<open>
  C3. For every vault state and every caller that is not the current owner, \<open>withdraw\<close>,
  \<open>withdrawAll\<close> and \<open>changeOwner\<close> fail with \<open>Not_owner\<close> and leave the whole state,
  owner, balance and emitted events, as it was.
\<close>

theorem non_owner_unauthorized:
  "sender \<noteq> owner s \<Longrightarrow>
   transact s sender (Call_withdraw to a r) = (s, Some Not_owner) \<and>
   transact s sender (Call_withdrawAll to r) = (s, Some Not_owner) \<and>
   transact s sender (Call_changeOwner newOwner) = (s, Some Not_owner)"
  by (simp add: transact_def onlyOwner_def withdraw.simps withdrawAll.simps changeOwner_def)

theorem non_owner_unauthorized_witness:
  "(5::address) \<noteq> owner \<lparr>owner = 1, self_addr = 2, balance = 10, emitted = []\<rparr> \<and>
   transact \<lparr>owner = 1, self_addr = 2, balance = 10, emitted = []\<rparr> 5
       (Call_withdraw 5 3 (Returns [])) =
     (\<lparr>owner = 1, self_addr = 2, balance = 10, emitted = []\<rparr>, Some Not_owner) \<and>
   transact \<lparr>owner = 1, self_addr = 2, balance = 10, emitted = []\<rparr> 5
       (Call_withdrawAll 5 (Returns [])) =
     (\<lparr>owner = 1, self_addr = 2, balance = 10, emitted = []\<rparr>, Some Not_owner) \<and>
   transact \<lparr>owner = 1, self_addr = 2, balance = 10, emitted = []\<rparr> 5
       (Call_changeOwner 5) =
     (\<lparr>owner = 1, self_addr = 2, balance = 10, emitted = []\<rparr>, Some Not_owner)"
  using non_owner_unauthorized
    [of 5 "\<lparr>owner = 1, self_addr = 2, balance = 10, emitted = []\<rparr>" 5 3 "Returns []" 5]
  by simp

section \<open>Sufficiency\<close>

text \<open>
  C4. For the owner and a non-null recipient, \<open>withdraw(to, a)\<close> with \<open>a\<close> above the
  current balance fails with \<open>Insufficient_balance\<close> and changes nothing. The check is
  made anew at every call: when the balance left by a first \<open>withdraw(to, a)\<close> is below
  \<open>a\<close>, a second identical call fails and changes nothing, with \<open>Insufficient_balance\<close>
  as long as the caller still is the owner (a recipient of the first call that is the
  owner can have passed the ownership on; the reason then is \<open>Not_owner\<close>).
\<close>

theorem withdraw_insufficient:
  "(sender = owner s \<and> to \<noteq> 0 \<and> balance s < int a \<longrightarrow>
      transact s sender (Call_withdraw to a r) = (s, Some Insufficient_balance)) \<and>
   (to \<noteq> 0 \<and> balance (fst (transact s sender (Call_withdraw to a r1))) < int a \<longrightarrow>
      transact (fst (transact s sender (Call_withdraw to a r1))) sender (Call_withdraw to a r2) =
        (fst (transact s sender (Call_withdraw to a r1)),
         Some (if sender = owner (fst (transact s sender (Call_withdraw to a r1)))
               then Insufficient_balance else Not_owner)))"
proof -
  define s1 where "s1 = fst (transact s sender (Call_withdraw to a r1))"
  have "to \<noteq> 0 \<and> balance s1 < int a \<longrightarrow>
      transact s1 sender (Call_withdraw to a r2) =
        (s1, Some (if sender = owner s1 then Insufficient_balance else Not_owner))"
    using withdraw_Not_owner [of sender s1 to a r2]
      withdraw_Insufficient_balance [of sender s1 to a r2]
    by (cases "sender = owner s1") auto
  then show ?thesis
    unfolding s1_def using withdraw_Insufficient_balance [of sender s to a r] by blast
qed

theorem withdraw_insufficient_witness:
  "(1::address) = owner \<lparr>owner = 1, self_addr = 2, balance = 10, emitted = []\<rparr> \<and>
   (3::address) \<noteq> 0 \<and>
   balance \<lparr>owner = 1, self_addr = 2, balance = 10, emitted = []\<rparr> < int 11 \<and>
   transact \<lparr>owner = 1, self_addr = 2, balance = 10, emitted = []\<rparr> 1 (Call_withdraw 3 11 (Returns [])) = (\<lparr>owner = 1, self_addr = 2, balance = 10, emitted = []\<rparr>, Some Insufficient_balance) \<and>
   fst (transact \<lparr>owner = 1, self_addr = 2, balance = 10, emitted = []\<rparr> 1 (Call_withdraw 3 6 (Returns []))) =
     \<lparr>owner = 1, self_addr = 2, balance = 4, emitted = [Withdrawn 3 6]\<rparr> \<and>
   transact (fst (transact \<lparr>owner = 1, self_addr = 2, balance = 10, emitted = []\<rparr> 1 (Call_withdraw 3 6 (Returns [])))) 1
       (Call_withdraw 3 6 (Returns [])) =
     (\<lparr>owner = 1, self_addr = 2, balance = 4, emitted = [Withdrawn 3 6]\<rparr>,
      Some Insufficient_balance)"
proof -
  have h: "(1::address) = owner \<lparr>owner = 1, self_addr = 2, balance = 10, emitted = []\<rparr> \<and> (3::address) \<noteq> 0 \<and> balance \<lparr>owner = 1, self_addr = 2, balance = 10, emitted = []\<rparr> < int 11"
    by simp
  have f: "fst (transact \<lparr>owner = 1, self_addr = 2, balance = 10, emitted = []\<rparr> 1 (Call_withdraw 3 6 (Returns []))) =
     \<lparr>owner = 1, self_addr = 2, balance = 4, emitted = [Withdrawn 3 6]\<rparr>"
    by (simp add: transact_def onlyOwner_def withdraw.simps send_value.simps debit_def emit_def)
  from h f
    withdraw_insufficient [of 1 "\<lparr>owner = 1, self_addr = 2, balance = 10, emitted = []\<rparr>" 3 11 "Returns []"]
    withdraw_insufficient [of 1 "\<lparr>owner = 1, self_addr = 2, balance = 10, emitted = []\<rparr>" 3 6 "Returns []" "Returns []" "Returns []"]
  show ?thesis by simp
qed

section \<open>Withdrawing everything\<close>

text \<open>
  C5. For every vault state and caller, \<open>withdrawAll(to)\<close> is \<open>withdraw(to, b)\<close> with \<open>b\<close>
  the balance at the time of the call: the same resulting state and events and the same
  failure. The one exception is the additional check \<open>balance > 0\<close>: the owner's
  \<open>withdrawAll\<close> on an empty vault fails with \<open>No_balance\<close>. (A caller who is not the
  owner is turned away by both operations alike, before the balance is looked at.)
\<close>

theorem withdrawAll_is_withdraw_of_balance:
  "transact s sender (Call_withdrawAll to r) =
     (if 0 < balance s \<or> sender \<noteq> owner s
      then transact s sender (Call_withdraw to (nat (balance s)) r)
      else (s, Some No_balance))"
  by (simp add: transact_def withdrawAll.simps onlyOwner_def withdraw.simps Let_def)

theorem withdrawAll_is_withdraw_of_balance_witness:
  "transact \<lparr>owner = 1, self_addr = 2, balance = 10, emitted = []\<rparr> 1
       (Call_withdrawAll 3 (Returns [])) =
     transact \<lparr>owner = 1, self_addr = 2, balance = 10, emitted = []\<rparr> 1
       (Call_withdraw 3 10 (Returns [])) \<and>
   transact \<lparr>owner = 1, self_addr = 2, balance = 10, emitted = []\<rparr> 1
       (Call_withdrawAll 3 (Returns [])) =
     (\<lparr>owner = 1, self_addr = 2, balance = 0, emitted = [Withdrawn 3 10]\<rparr>, None) \<and>
   transact \<lparr>owner = 1, self_addr = 2, balance = 0, emitted = []\<rparr> 1
       (Call_withdrawAll 3 (Returns [])) =
     (\<lparr>owner = 1, self_addr = 2, balance = 0, emitted = []\<rparr>, Some No_balance)"
proof -
  have w: "transact \<lparr>owner = 1, self_addr = 2, balance = 10, emitted = []\<rparr> 1
       (Call_withdraw 3 10 (Returns [])) =
     (\<lparr>owner = 1, self_addr = 2, balance = 0, emitted = [Withdrawn 3 10]\<rparr>, None)"
    by (simp add: transact_def onlyOwner_def withdraw.simps send_value.simps debit_def emit_def)
  from w
    withdrawAll_is_withdraw_of_balance
      [of "\<lparr>owner = 1, self_addr = 2, balance = 10, emitted = []\<rparr>" 1 3 "Returns []"]
    withdrawAll_is_withdraw_of_balance
      [of "\<lparr>owner = 1, self_addr = 2, balance = 0, emitted = []\<rparr>" 1 3 "Returns []"]
  show ?thesis by simp
qed

section \<open>Ownership\<close>

text \<open>
  C6. Called by the current owner, \<open>changeOwner(address(0))\<close> fails with \<open>Zero_address\<close> and
  changes nothing. With a non-null \<open>X\<close> it sets \<open>owner\<close> to \<open>X\<close> and emits
  \<open>OwnerChanged(old, X)\<close>, \<open>old\<close> being the owner before the call. In the state it leaves,
  a restricted operation called by \<open>k\<close> is refused with \<open>Not_owner\<close> exactly when \<open>k\<close> is
  not \<open>X\<close>: \<open>X\<close> is let through the owner check and the old owner, if different, is not.
\<close>

theorem changeOwner_hands_over:
  "sender = owner s \<Longrightarrow>
   transact s sender (Call_changeOwner 0) = (s, Some Zero_address) \<and>
   (X \<noteq> 0 \<longrightarrow>
      transact s sender (Call_changeOwner X) =
        (s\<lparr>owner := X, emitted := emitted s @ [OwnerChanged (owner s) X]\<rparr>, None) \<and>
      (restricted c \<longrightarrow>
         (snd (transact (fst (transact s sender (Call_changeOwner X))) k c) = Some Not_owner)
           = (k \<noteq> X)))"
proof -
  assume own: "sender = owner s"
  have zero: "transact s sender (Call_changeOwner 0) = (s, Some Zero_address)"
    using own by (simp add: transact_def changeOwner_def onlyOwner_def)
  have set: "transact s sender (Call_changeOwner X) =
        (s\<lparr>owner := X, emitted := emitted s @ [OwnerChanged (owner s) X]\<rparr>, None)"
    if "X \<noteq> 0"
    using own that by (simp add: transact_def changeOwner_def onlyOwner_def emit_def)
  have auth: "(snd (transact s' k c) = Some Not_owner) = (k \<noteq> owner s')"
    if "restricted c" for s'
    using that
    by (cases c)
       (auto simp: transact_def onlyOwner_def withdraw.simps withdrawAll.simps changeOwner_def Let_def
             split: sum.splits option.splits if_splits)
  show ?thesis
    using zero set auth [of "fst (transact s sender (Call_changeOwner X))"] by auto
qed

theorem changeOwner_hands_over_witness:
  "(1::address) = owner \<lparr>owner = 1, self_addr = 2, balance = 10, emitted = []\<rparr> \<and>
   (7::address) \<noteq> 0 \<and>
   restricted (Call_withdraw 3 4 (Returns [])) \<and>
   transact \<lparr>owner = 1, self_addr = 2, balance = 10, emitted = []\<rparr> 1 (Call_changeOwner 0) =
     (\<lparr>owner = 1, self_addr = 2, balance = 10, emitted = []\<rparr>, Some Zero_address) \<and>
   transact \<lparr>owner = 1, self_addr = 2, balance = 10, emitted = []\<rparr> 1 (Call_changeOwner 7) =
     (\<lparr>owner = 7, self_addr = 2, balance = 10, emitted = [OwnerChanged 1 7]\<rparr>, None) \<and>
   snd (transact (fst (transact \<lparr>owner = 1, self_addr = 2, balance = 10, emitted = []\<rparr> 1
           (Call_changeOwner 7))) 1 (Call_withdraw 3 4 (Returns []))) = Some Not_owner \<and>
   snd (transact (fst (transact \<lparr>owner = 1, self_addr = 2, balance = 10, emitted = []\<rparr> 1
           (Call_changeOwner 7))) 7 (Call_withdraw 3 4 (Returns []))) \<noteq> Some Not_owner"
proof -
  have h: "(1::address) = owner \<lparr>owner = 1, self_addr = 2, balance = 10, emitted = []\<rparr>" by simp
  have x: "(7::address) \<noteq> 0" by simp
  have rc: "restricted (Call_withdraw 3 4 (Returns []))" by simp
  have old: "((1::address) \<noteq> 7) = True" and new: "((7::address) \<noteq> 7) = False"
    by simp_all
  from changeOwner_hands_over [OF h, of 7 "Call_withdraw 3 4 (Returns [])" 1] x rc
  have a: "transact \<lparr>owner = 1, self_addr = 2, balance = 10, emitted = []\<rparr> 1 (Call_changeOwner 0) = (\<lparr>owner = 1, self_addr = 2, balance = 10, emitted = []\<rparr>, Some Zero_address)"
    and b: "transact \<lparr>owner = 1, self_addr = 2, balance = 10, emitted = []\<rparr> 1 (Call_changeOwner 7) =
      (\<lparr>owner = 1, self_addr = 2, balance = 10, emitted = []\<rparr>\<lparr>owner := 7, emitted := emitted \<lparr>owner = 1, self_addr = 2, balance = 10, emitted = []\<rparr> @ [OwnerChanged (owner \<lparr>owner = 1, self_addr = 2, balance = 10, emitted = []\<rparr>) 7]\<rparr>, None)"
    and c: "(snd (transact (fst (transact \<lparr>owner = 1, self_addr = 2, balance = 10, emitted = []\<rparr> 1 (Call_changeOwner 7))) 1
          (Call_withdraw 3 4 (Returns []))) = Some Not_owner) = ((1::address) \<noteq> 7)"
    by blast+
  from changeOwner_hands_over [OF h, of 7 "Call_withdraw 3 4 (Returns [])" 7] x rc
  have d: "(snd (transact (fst (transact \<lparr>owner = 1, self_addr = 2, balance = 10, emitted = []\<rparr> 1 (Call_changeOwner 7))) 7
          (Call_withdraw 3 4 (Returns []))) = Some Not_owner) = ((7::address) \<noteq> 7)"
    by blast
  from b have b': "transact \<lparr>owner = 1, self_addr = 2, balance = 10, emitted = []\<rparr> 1 (Call_changeOwner 7) =
     (\<lparr>owner = 7, self_addr = 2, balance = 10, emitted = [OwnerChanged 1 7]\<rparr>, None)"
    by simp
  from c old have c': "snd (transact (fst (transact \<lparr>owner = 1, self_addr = 2, balance = 10, emitted = []\<rparr> 1 (Call_changeOwner 7))) 1
          (Call_withdraw 3 4 (Returns []))) = Some Not_owner"
    by (simp only: simp_thms)
  from d new have d': "snd (transact (fst (transact \<lparr>owner = 1, self_addr = 2, balance = 10, emitted = []\<rparr> 1 (Call_changeOwner 7))) 7
          (Call_withdraw 3 4 (Returns []))) \<noteq> Some Not_owner"
    by (simp only: simp_thms)
  from h x rc a b' c' d' show ?thesis by blast
qed

section \<open>Invariants\<close>

text \<open>
  C7. If the creator is not the null address, then the state after construction has a
  non-null owner and a non-negative balance; every transaction, whether it succeeds or
  reverts, keeps both; so they hold in every state reached from construction by any
  sequence of calls from any senders, reentrant calls and forced credits included.
\<close>

theorem wallet_inv_reachable:
  "creator \<noteq> 0 \<Longrightarrow>
   wallet_inv (constructor_wallet creator vault funded) \<and>
   (\<forall>s sender c. wallet_inv s \<longrightarrow> wallet_inv (fst (transact s sender c))) \<and>
   (\<forall>txs. wallet_inv (run_calls (constructor_wallet creator vault funded) txs))"
proof -
  assume "creator \<noteq> 0"
  then have init: "wallet_inv (constructor_wallet creator vault funded)"
    by (simp add: wallet_inv_def constructor_wallet_def)
  from init show ?thesis
    by (simp add: transact_inv inv_preserved(5))
qed

theorem wallet_inv_reachable_witness:
  "(1::address) \<noteq> 0 \<and>
   wallet_inv (constructor_wallet 1 2 0) \<and>
   wallet_inv (run_calls (constructor_wallet 1 2 0)
      [(5, Call_deposit 10), (1, Call_withdraw 3 4 (Returns [])), (5, Call_withdraw 3 1 (Returns [])),
       (1, Call_changeOwner 0), (1, Call_withdrawAll 3 (Returns []))]) \<and>
   run_calls (constructor_wallet 1 2 0)
      [(5, Call_deposit 10), (1, Call_withdraw 3 4 (Returns [])), (5, Call_withdraw 3 1 (Returns [])),
       (1, Call_changeOwner 0), (1, Call_withdrawAll 3 (Returns []))] =
     \<lparr>owner = 1, self_addr = 2, balance = 0,
      emitted = [Deposited 5 10, Withdrawn 3 4, Withdrawn 3 6]\<rparr>"
proof -
  have run: "run_calls (constructor_wallet 1 2 0)
      [(5, Call_deposit 10), (1, Call_withdraw 3 4 (Returns [])), (5, Call_withdraw 3 1 (Returns [])),
       (1, Call_changeOwner 0), (1, Call_withdrawAll 3 (Returns []))] =
     \<lparr>owner = 1, self_addr = 2, balance = 0,
      emitted = [Deposited 5 10, Withdrawn 3 4, Withdrawn 3 6]\<rparr>"
    by (simp add: constructor_wallet_def deposit_def onlyOwner_def withdraw.simps withdrawAll.simps
          send_value.simps changeOwner_def debit_def credit_def emit_def)
  have h: "(1::address) \<noteq> 0" by simp
  from wallet_inv_reachable [OF h, of 2 0]
  have i: "wallet_inv (constructor_wallet 1 2 0)"
    and r: "wallet_inv (run_calls (constructor_wallet 1 2 0)
      [(5, Call_deposit 10), (1, Call_withdraw 3 4 (Returns [])), (5, Call_withdraw 3 1 (Returns [])),
       (1, Call_changeOwner 0), (1, Call_withdrawAll 3 (Returns []))])"
    by blast+
  from h i r run show ?thesis by blast
qed

section \<open>Deposits\<close>

text \<open>
  C8. For every caller, \<open>deposit()\<close> with no value fails with \<open>No_FLR_sent\<close> and
  changes nothing; with a positive value \<open>v\<close> it succeeds, the balance grows by exactly
  \<open>v\<close>, and \<open>Deposited(sender, v)\<close> is emitted.
\<close>

theorem deposit_requires_value:
  "transact s sender (Call_deposit 0) = (s, Some No_FLR_sent) \<and>
   (0 < v \<longrightarrow> transact s sender (Call_deposit v) =
      (s\<lparr>balance := balance s + int v, emitted := emitted s @ [Deposited sender v]\<rparr>, None))"
  by (simp add: transact_def deposit_def emit_def credit_def)

theorem deposit_requires_value_witness:
  "(0::nat) < 10 \<and>
   transact \<lparr>owner = 1, self_addr = 2, balance = 0, emitted = []\<rparr> 5 (Call_deposit 0) =
     (\<lparr>owner = 1, self_addr = 2, balance = 0, emitted = []\<rparr>, Some No_FLR_sent) \<and>
   transact \<lparr>owner = 1, self_addr = 2, balance = 0, emitted = []\<rparr> 5 (Call_deposit 10) =
     (\<lparr>owner = 1, self_addr = 2, balance = 10, emitted = [Deposited 5 10]\<rparr>, None)"
  using deposit_requires_value [of "\<lparr>owner = 1, self_addr = 2, balance = 0, emitted = []\<rparr>" 5 10]
  by simp

text \<open>
  C9 (as amended). A bare transfer of any value \<open>v\<close>, zero included, from any sender
  other than the vault itself is accepted by \<open>receive()\<close>: the balance grows by \<open>v\<close> and
  \<open>Deposited(sender, v)\<close> is emitted. So \<open>Deposited(sender, 0)\<close> can be observed on this
  path, while \<open>deposit()\<close> refuses the value zero. When the vault pays itself (a
  withdrawal to its own address), \<open>receive()\<close> runs and emits \<open>Deposited(vault, v)\<close> all
  the same, and the balance stays as it is.
\<close>

theorem receive_accepts_any_value:
  "(sender \<noteq> self_addr s \<longrightarrow>
      transact s sender (Call_receive v) =
        (s\<lparr>balance := balance s + int v, emitted := emitted s @ [Deposited sender v]\<rparr>, None) \<and>
      transact s sender (Call_receive 0) =
        (s\<lparr>emitted := emitted s @ [Deposited sender 0]\<rparr>, None)) \<and>
   (sender = self_addr s \<and> int v \<le> balance s \<longrightarrow>
      transact s sender (Call_receive v) =
        (s\<lparr>emitted := emitted s @ [Deposited sender v]\<rparr>, None)) \<and>
   transact s sender (Call_deposit 0) = (s, Some No_FLR_sent)"
  by (simp add: transact_def receive_flr_def deposit_def emit_def credit_def debit_def)

theorem receive_accepts_any_value_witness:
  "(5::address) \<noteq> self_addr \<lparr>owner = 1, self_addr = 2, balance = 10, emitted = []\<rparr> \<and>
   (2::address) = self_addr \<lparr>owner = 1, self_addr = 2, balance = 10, emitted = []\<rparr> \<and>
   int 4 \<le> balance \<lparr>owner = 1, self_addr = 2, balance = 10, emitted = []\<rparr> \<and>
   transact \<lparr>owner = 1, self_addr = 2, balance = 10, emitted = []\<rparr> 5 (Call_receive 0) =
     (\<lparr>owner = 1, self_addr = 2, balance = 10, emitted = [Deposited 5 0]\<rparr>, None) \<and>
   transact \<lparr>owner = 1, self_addr = 2, balance = 10, emitted = []\<rparr> 5 (Call_receive 3) =
     (\<lparr>owner = 1, self_addr = 2, balance = 13, emitted = [Deposited 5 3]\<rparr>, None) \<and>
   transact \<lparr>owner = 1, self_addr = 2, balance = 10, emitted = []\<rparr> 2 (Call_receive 4) =
     (\<lparr>owner = 1, self_addr = 2, balance = 10, emitted = [Deposited 2 4]\<rparr>, None) \<and>
   transact \<lparr>owner = 1, self_addr = 2, balance = 10, emitted = []\<rparr> 5 (Call_deposit 0) = (\<lparr>owner = 1, self_addr = 2, balance = 10, emitted = []\<rparr>, Some No_FLR_sent)"
  using receive_accepts_any_value [of 5 "\<lparr>owner = 1, self_addr = 2, balance = 10, emitted = []\<rparr>" 3]
    receive_accepts_any_value [of 2 "\<lparr>owner = 1, self_addr = 2, balance = 10, emitted = []\<rparr>" 4]
  by simp

text \<open>
  C9 as stated fails when the sender is the vault. The owner \<open>1\<close> of a vault at address
  \<open>2\<close> holding \<open>10\<close> withdraws \<open>4\<close> to the vault's own address: the bare transfer from
  \<open>2\<close> to \<open>2\<close> is accepted and emits \<open>Deposited(2, 4)\<close>, and the balance is \<open>10\<close> before
  and after it, not \<open>14\<close>.
\<close>

theorem receive_from_vault_counterexample:
  "self_addr \<lparr>owner = 1, self_addr = 2, balance = 10, emitted = []\<rparr> = 2 \<and>
   transact \<lparr>owner = 1, self_addr = 2, balance = 10, emitted = []\<rparr> 2 (Call_receive 4) =
     (\<lparr>owner = 1, self_addr = 2, balance = 10, emitted = [Deposited 2 4]\<rparr>, None) \<and>
   (10::int) \<noteq> 10 + int 4 \<and>
   send_value \<lparr>owner = 1, self_addr = 2, balance = 10, emitted = []\<rparr> 2 4 (Returns []) =
     Some \<lparr>owner = 1, self_addr = 2, balance = 10, emitted = [Deposited 2 4]\<rparr> \<and>
   transact \<lparr>owner = 1, self_addr = 2, balance = 10, emitted = []\<rparr> 1 (Call_withdraw 2 4 (Returns [])) =
     (\<lparr>owner = 1, self_addr = 2, balance = 10,
       emitted = [Deposited 2 4, Withdrawn 2 4]\<rparr>, None)"
  by (simp add: transact_def onlyOwner_def withdraw.simps send_value.simps debit_def emit_def
        credit_def receive_flr_def)

section \<open>Order of the checks\<close>

text \<open>
  C10. Called by the owner on a vault with balance zero, \<open>withdrawAll(to)\<close> fails with
  \<open>No_balance\<close> for every \<open>to\<close>, the null address included: the balance is checked
  before the recipient, and the null recipient is reported only when there is something
  to withdraw. \<open>withdraw\<close> checks in the other order: a null recipient is reported
  whatever the amount and the balance.
\<close>

theorem withdrawAll_checks_balance_first:
  "sender = owner s \<Longrightarrow>
   (balance s = 0 \<longrightarrow> transact s sender (Call_withdrawAll to r) = (s, Some No_balance)) \<and>
   (0 < balance s \<longrightarrow> transact s sender (Call_withdrawAll 0 r) = (s, Some Zero_address)) \<and>
   transact s sender (Call_withdraw 0 a r) = (s, Some Zero_address)"
  by (simp add: transact_def withdrawAll.simps onlyOwner_def withdraw.simps)

theorem withdrawAll_checks_balance_first_witness:
  "(1::address) = owner \<lparr>owner = 1, self_addr = 2, balance = 0, emitted = []\<rparr> \<and>
   balance \<lparr>owner = 1, self_addr = 2, balance = 0, emitted = []\<rparr> = 0 \<and>
   transact \<lparr>owner = 1, self_addr = 2, balance = 0, emitted = []\<rparr> 1 (Call_withdrawAll 0 (Returns [])) =
     (\<lparr>owner = 1, self_addr = 2, balance = 0, emitted = []\<rparr>, Some No_balance) \<and>
   transact \<lparr>owner = 1, self_addr = 2, balance = 0, emitted = []\<rparr> 1 (Call_withdraw 0 5 (Returns [])) =
     (\<lparr>owner = 1, self_addr = 2, balance = 0, emitted = []\<rparr>, Some Zero_address)"
  using withdrawAll_checks_balance_first
     [of 1 "\<lparr>owner = 1, self_addr = 2, balance = 0, emitted = []\<rparr>" 0 "Returns []" 5]
  by simp

end
